theory Spec2Isabelle
  imports Complex_Main
begin

section \<open>Python values\<close>

text \<open>
  The values \<open>response.json()\<close> decodes and the tools return. A Python \<open>dict\<close> keeps
  its insertion order, so it is an association list; keys decoded from JSON are strings,
  keys the code inserts itself (\<open>get_lab_nodes\<close>) can be any hashable value. A float is
  the rational it denotes (NaN and the infinities are not modelled). \<open>JNull\<close> is \<open>None\<close>.
\<close>

datatype json =
    JNull
  | JBool bool
  | JInt int
  | JFloat rat
  | JStr string
  | JList "json list"
  | JDict "(json \<times> json) list"

text \<open>Exceptions, as values. \<open>HTTPStatusError\<close> carries the status code.\<close>

datatype py_exc =
    HTTPStatusError nat
  | TransportError
  | JSONDecodeError
  | AttributeError
  | TypeError

text \<open>
  What Python's \<open>str()\<close> prints for an exception and for a value that is not a string
  is the interpreter's and httpx's business: both are parameters of the model.
\<close>

record pyrt =
  str_exc :: "py_exc \<Rightarrow> string"
  str_val :: "json \<Rightarrow> string"

text \<open>An f-string field \<open>{v}\<close>: a string is inserted as it is.\<close>

definition fmt :: "pyrt \<Rightarrow> json \<Rightarrow> string" where
  "fmt rt v = (case v of JStr s \<Rightarrow> s | _ \<Rightarrow> str_val rt v)"

text \<open>Truthiness (\<open>if x\<close>, \<open>not x\<close>).\<close>

definition py_truthy :: "json \<Rightarrow> bool" where
  "py_truthy v =
     (case v of
        JNull \<Rightarrow> False
      | JBool b \<Rightarrow> b
      | JInt i \<Rightarrow> i \<noteq> 0
      | JFloat r \<Rightarrow> r \<noteq> 0
      | JStr s \<Rightarrow> s \<noteq> []
      | JList xs \<Rightarrow> xs \<noteq> []
      | JDict kvs \<Rightarrow> kvs \<noteq> [])"

text \<open>The number a value is when Python compares it with a number (\<open>True == 1\<close>).\<close>

definition py_num :: "json \<Rightarrow> rat option" where
  "py_num v =
     (case v of
        JBool b \<Rightarrow> Some (if b then 1 else 0)
      | JInt i \<Rightarrow> Some (of_int i)
      | JFloat r \<Rightarrow> Some r
      | _ \<Rightarrow> None)"

text \<open>\<open>a == b\<close> on the values used as dictionary keys and in the comparisons of the code.\<close>

definition py_eq :: "json \<Rightarrow> json \<Rightarrow> bool" where
  "py_eq a b =
     (case (py_num a, py_num b) of
        (Some x, Some y) \<Rightarrow> x = y
      | (None, None) \<Rightarrow> a = b
      | _ \<Rightarrow> False)"

definition isinstance_list :: "json \<Rightarrow> bool" where
  "isinstance_list v = (case v of JList _ \<Rightarrow> True | _ \<Rightarrow> False)"

definition isinstance_dict :: "json \<Rightarrow> bool" where
  "isinstance_dict v = (case v of JDict _ \<Rightarrow> True | _ \<Rightarrow> False)"

text \<open>\<open>d.get(k, default)\<close> on the pairs of a dictionary.\<close>

fun dict_get :: "(json \<times> json) list \<Rightarrow> json \<Rightarrow> json \<Rightarrow> json" where
  "dict_get [] k dflt = dflt"
| "dict_get ((k', v) # kvs) k dflt = (if py_eq k' k then v else dict_get kvs k dflt)"


text \<open>
  \<open>d[k] = v\<close>: an existing key keeps its place (and the key object it had), a new
  one goes last.
\<close>

fun dict_set :: "(json \<times> json) list \<Rightarrow> json \<Rightarrow> json \<Rightarrow> (json \<times> json) list" where
  "dict_set [] k v = [(k, v)]"
| "dict_set ((k', v') # kvs) k v =
     (if py_eq k' k then (k', v) # kvs else (k', v') # dict_set kvs k v)"

text \<open>\<open>x.get(k)\<close> and \<open>x.get(k, default)\<close>: only a dictionary has the method.\<close>

definition py_get :: "json \<Rightarrow> string \<Rightarrow> json \<Rightarrow> py_exc + json" where
  "py_get x k dflt =
     (case x of JDict kvs \<Rightarrow> Inr (dict_get kvs (JStr k) dflt) | _ \<Rightarrow> Inl AttributeError)"

text \<open>\<open>list(d.keys())\<close>.\<close>

definition dict_keys :: "(json \<times> json) list \<Rightarrow> json list" where
  "dict_keys kvs = map fst kvs"

subsection \<open>Strings\<close>

text \<open>\<open>sub in s\<close> on strings.\<close>

fun str_contains :: "string \<Rightarrow> string \<Rightarrow> bool" where
  "str_contains sub [] = (sub = [])"
| "str_contains sub (c # cs) = (take (length sub) (c # cs) = sub \<or> str_contains sub cs)"

text \<open>\<open>s.strip('"')\<close>: the double quotes at both ends go.\<close>

definition strip_quotes :: "string \<Rightarrow> string" where
  "strip_quotes s =
     rev (dropWhile (\<lambda>c. c = CHR 0x22) (rev (dropWhile (\<lambda>c. c = CHR 0x22) s)))"

text \<open>
  The characters \<open>str.split()\<close> takes for whitespace, among the code points below 256:
  tab to carriage return, the four separators 28 to 31, the space, NEL and the
  no-break space.
\<close>

definition py_isspace :: "char \<Rightarrow> bool" where
  "py_isspace c =
     (let n = (of_char c :: nat)
      in (9 \<le> n \<and> n \<le> 13) \<or> (28 \<le> n \<and> n \<le> 32) \<or> n = 133 \<or> n = 160)"

text \<open>
  \<open>s.split()\<close>: the maximal runs of characters that are not whitespace, in order.
  \<open>cur\<close> is the run being read, last character first.
\<close>

fun split_acc :: "string \<Rightarrow> string \<Rightarrow> string list" where
  "split_acc cur [] = (if cur = [] then [] else [rev cur])"
| "split_acc cur (c # cs) =
     (if py_isspace c
      then (if cur = [] then split_acc [] cs else rev cur # split_acc [] cs)
      else split_acc (c # cur) cs)"

definition py_split :: "string \<Rightarrow> string list" where
  "py_split s = split_acc [] s"

text \<open>\<open>range(0, n, 36)\<close> and \<open>[s[i:i+36] for i in range(0, len(s), 36)]\<close>.\<close>

definition range36 :: "nat \<Rightarrow> nat list" where
  "range36 n = map (\<lambda>k. 36 * k) [0 ..< (n + 35) div 36]"

definition chunks36 :: "string \<Rightarrow> string list" where
  "chunks36 s = map (\<lambda>i. take 36 (drop i s)) (range36 (length s))"

section \<open>The HTTP exchange\<close>

text \<open>
  A request as httpx puts it on the wire: the method, the path, the headers (the
  client's default headers updated with the call's own) and the JSON body.
\<close>

record http_request =
  req_method :: string
  req_url :: string
  req_headers :: "(string \<times> string) list"
  req_json :: "json option"

text \<open>
  A response: its status, its body as text, and what \<open>.json()\<close> decodes from the body
  (\<open>None\<close> when the body is not JSON and \<open>.json()\<close> raises).
\<close>

record http_response =
  status_code :: nat
  body_text :: string
  body_json :: "json option"

text \<open>
  The server and the network are the environment: a state machine that answers each
  request with a response, or with none when the transport fails, and with the time the
  exchange took.
\<close>

type_synonym 's server = "'s \<Rightarrow> http_request \<Rightarrow> http_response option \<times> nat \<times> 's"

text \<open>\<open>headers[k] = v\<close> and \<open>headers.update(...)\<close> on a header dictionary.\<close>

fun hdr_set :: "(string \<times> string) list \<Rightarrow> string \<Rightarrow> string \<Rightarrow> (string \<times> string) list" where
  "hdr_set [] k v = [(k, v)]"
| "hdr_set ((k', v') # hs) k v = (if k' = k then (k', v) # hs else (k', v') # hdr_set hs k v)"

definition hdr_update :: "(string \<times> string) list \<Rightarrow> (string \<times> string) list \<Rightarrow> (string \<times> string) list" where
  "hdr_update hs new = foldl (\<lambda>acc (k, v). hdr_set acc k v) hs new"

text \<open>\<open>response.raise_for_status()\<close> of httpx 0.26: every status outside 200..299 raises.\<close>

definition raise_for_status :: "http_response \<Rightarrow> py_exc + unit" where
  "raise_for_status r =
     (if 200 \<le> status_code r \<and> status_code r \<le> 299 then Inr ()
      else Inl (HTTPStatusError (status_code r)))"

text \<open>\<open>response.json()\<close>.\<close>

definition resp_json :: "http_response \<Rightarrow> py_exc + json" where
  "resp_json r = (case body_json r of None \<Rightarrow> Inl JSONDecodeError | Some v \<Rightarrow> Inr v)"

section \<open>The session: class CMLAuth\<close>

record cml_auth_t =
  base_url :: string
  username :: string
  password :: string
  token :: "string option"
  verify_ssl :: bool
  client_headers :: "(string \<times> string) list"

text \<open>
  The state the tools run in: the global \<open>cml_auth\<close> (\<open>None\<close> before
  \<open>initialize_client\<close>), the server, the event loop's clock, and three logs the proofs
  read: the exchanges on the wire (each request with the response it got, \<open>None\<close> when
  the transport failed), the calls of \<open>CMLAuth.request\<close> (method, endpoint and JSON
  body, written down as the method is entered), and the durations passed to
  \<open>asyncio.sleep\<close>.
\<close>

record 's world =
  cml_auth :: "cml_auth_t option"
  server :: 's
  clock :: int
  sent :: "(http_request \<times> http_response option) list"
  calls :: "(string \<times> string \<times> json option) list"
  slept :: "int list"

text \<open>One exchange through \<open>self.client\<close>: the default headers are merged in.\<close>

definition client_send ::
  "'s server \<Rightarrow> string \<Rightarrow> string \<Rightarrow> (string \<times> string) list \<Rightarrow> json option \<Rightarrow> 's world
    \<Rightarrow> (py_exc + http_response) \<times> 's world" where
  "client_send srv m url hs body w =
     (case cml_auth w of
        None \<Rightarrow> (Inl AttributeError, w)
      | Some a \<Rightarrow>
          (let rq = \<lparr>req_method = m, req_url = url,
                     req_headers = hdr_update (client_headers a) hs, req_json = body\<rparr>;
               (ans, dt, s') = srv (server w) rq;
               w' = w\<lparr>server := s', clock := clock w + int dt, sent := sent w @ [(rq, ans)]\<rparr>
           in (case ans of None \<Rightarrow> (Inl TransportError, w') | Some r \<Rightarrow> (Inr r, w'))))"

definition bearer :: "string option \<Rightarrow> string" where
  "bearer t = ''Bearer '' @ (case t of None \<Rightarrow> ''None'' | Some s \<Rightarrow> s)"

text \<open>\<open>not self.token\<close>: no token yet, or the empty one.\<close>

definition token_missing :: "cml_auth_t \<Rightarrow> bool" where
  "token_missing a = (case token a of None \<Rightarrow> True | Some t \<Rightarrow> t = [])"

text \<open>
  \<open>CMLAuth.authenticate\<close>: post the credentials, fail on a status that is not a
  success, store the token without its quotes and put it among the client's default
  headers; the check of \<open>/api/v0/authok\<close> is made and its failure is only printed.
\<close>

definition authenticate :: "'s server \<Rightarrow> 's world \<Rightarrow> (py_exc + string) \<times> 's world" where
  "authenticate srv w =
     (case cml_auth w of
        None \<Rightarrow> (Inl AttributeError, w)
      | Some a \<Rightarrow>
          (case client_send srv ''POST'' ''/api/v0/authenticate'' []
                  (Some (JDict [(JStr ''username'', JStr (username a)),
                                (JStr ''password'', JStr (password a))])) w of
             (Inl e, w1) \<Rightarrow> (Inl e, w1)
           | (Inr r, w1) \<Rightarrow>
               (case raise_for_status r of
                  Inl e \<Rightarrow> (Inl e, w1)
                | Inr _ \<Rightarrow>
                    (let t = strip_quotes (body_text r);
                         a' = a\<lparr>token := Some t,
                                client_headers :=
                                  hdr_set (client_headers a) ''Authorization'' (bearer (Some t))\<rparr>;
                         w2 = w1\<lparr>cml_auth := Some a'\<rparr>;
                         (_, w3) = client_send srv ''GET'' ''/api/v0/authok'' [] None w2
                     in (Inr t, w3)))))"

text \<open>
  \<open>CMLAuth.request\<close>. \<open>hs\<close> is the \<open>headers\<close> keyword argument (the empty dictionary
  when the caller gives none) and \<open>body\<close> the \<open>json\<close> one.
\<close>

definition current_token :: "'s world \<Rightarrow> string option" where
  "current_token w = (case cml_auth w of None \<Rightarrow> None | Some a \<Rightarrow> token a)"

definition request ::
  "'s server \<Rightarrow> string \<Rightarrow> string \<Rightarrow> (string \<times> string) list \<Rightarrow> json option \<Rightarrow> 's world
    \<Rightarrow> (py_exc + http_response) \<times> 's world" where
  "request srv m url hs body w =
     (case cml_auth w of
        None \<Rightarrow> (Inl AttributeError, w)
      | Some a \<Rightarrow>
          (case (let w0 = w\<lparr>calls := calls w @ [(m, url, body)]\<rparr>
                 in if token_missing a then authenticate srv w0 else (Inr [], w0)) of
             (Inl e, w2) \<Rightarrow> (Inl e, w2)
           | (Inr _, w2) \<Rightarrow>
               (let hs1 = hdr_set hs ''Authorization'' (bearer (current_token w2))
                in (case client_send srv m url hs1 body w2 of
                      (Inl e, w3) \<Rightarrow> (Inl e, w3)
                    | (Inr r, w3) \<Rightarrow>
                        (if status_code r = 401
                         then (case authenticate srv w3 of
                                 (Inl e, w4) \<Rightarrow> (Inl e, w4)
                               | (Inr _, w4) \<Rightarrow>
                                   (let hs2 = hdr_set hs1 ''Authorization''
                                                (bearer (current_token w4))
                                    in (case client_send srv m url hs2 body w4 of
                                          (Inl e, w5) \<Rightarrow> (Inl e, w5)
                                        | (Inr r2, w5) \<Rightarrow>
                                            (case raise_for_status r2 of
                                               Inl e \<Rightarrow> (Inl e, w5)
                                             | Inr _ \<Rightarrow> (Inr r2, w5)))))
                         else (case raise_for_status r of
                                 Inl e \<Rightarrow> (Inl e, w3)
                               | Inr _ \<Rightarrow> (Inr r, w3)))))))"

text \<open>The idiom \<open>response = await cml_auth.request(...); x = response.json()\<close>.\<close>

definition request_json ::
  "'s server \<Rightarrow> string \<Rightarrow> string \<Rightarrow> (string \<times> string) list \<Rightarrow> json option \<Rightarrow> 's world
    \<Rightarrow> (py_exc + json) \<times> 's world" where
  "request_json srv m url hs body w =
     (case request srv m url hs body w of
        (Inl e, w') \<Rightarrow> (Inl e, w')
      | (Inr r, w') \<Rightarrow> (resp_json r, w'))"

text \<open>
  \<open>await asyncio.sleep(d)\<close>. The clock of the event loop is read in whole time units
  (the seconds of the timeout); a sleep moves it by exactly \<open>d\<close> and an exchange by the
  time the environment says it took.
\<close>

definition sleep :: "int \<Rightarrow> 's world \<Rightarrow> 's world" where
  "sleep d w = w\<lparr>clock := clock w + d, slept := slept w @ [d]\<rparr>"

section \<open>The tools\<close>

text \<open>
  Each tool is an \<open>async\<close> function registered with \<open>@mcp.tool()\<close>; the tools that call
  other tools (\<open>get_physical_interfaces\<close>, \<open>wait_for_lab_nodes\<close>) call them as the plain
  functions they are written as. A tool takes the state and returns its result with the
  new state; an exception caught by the tool's \<open>except Exception\<close> becomes the message the
  handler returns.
\<close>

definition not_initialized :: string where
  "not_initialized = ''You must initialize the client first with initialize_client()''"

definition not_initialized_str :: json where
  "not_initialized_str = JStr (''Error: '' @ not_initialized)"

definition not_initialized_dict :: json where
  "not_initialized_dict = JDict [(JStr ''error'', JStr not_initialized)]"

subsection \<open>Labs\<close>


text \<open>\<open>x.items()\<close>.\<close>

definition py_items :: "json \<Rightarrow> py_exc + (json \<times> json) list" where
  "py_items v = (case v of JDict kvs \<Rightarrow> Inr kvs | _ \<Rightarrow> Inl AttributeError)"






definition get_lab_details :: "'s server \<Rightarrow> pyrt \<Rightarrow> string \<Rightarrow> 's world \<Rightarrow> json \<times> 's world" where
  "get_lab_details srv rt lab_id w =
     (if cml_auth w = None then (not_initialized_dict, w)
      else (case request_json srv ''GET'' (''/api/v0/labs/'' @ lab_id) [] None w of
              (Inl e, w') \<Rightarrow>
                (JDict [(JStr ''error'',
                         JStr (''Error getting lab details: '' @ str_exc rt e))], w')
            | (Inr lab_details, w') \<Rightarrow> (lab_details, w')))"

subsection \<open>Nodes\<close>

text \<open>
  The conversion of a list of nodes to a dictionary in \<open>get_lab_nodes\<close>: a node is
  stored under its \<open>id\<close> when it has one; a list or a dictionary cannot be a key.
\<close>

definition py_hashable :: "json \<Rightarrow> bool" where
  "py_hashable v = (case v of JList _ \<Rightarrow> False | JDict _ \<Rightarrow> False | _ \<Rightarrow> True)"

fun nodes_to_dict :: "json list \<Rightarrow> (json \<times> json) list \<Rightarrow> py_exc + (json \<times> json) list" where
  "nodes_to_dict [] result = Inr result"
| "nodes_to_dict (node # rest) result =
     (case py_get node ''id'' JNull of
        Inl e \<Rightarrow> Inl e
      | Inr node_id \<Rightarrow>
          (if py_truthy node_id
           then (if py_hashable node_id
                 then nodes_to_dict rest (dict_set result node_id node)
                 else Inl TypeError)
           else nodes_to_dict rest result))"

definition get_lab_nodes :: "'s server \<Rightarrow> pyrt \<Rightarrow> string \<Rightarrow> 's world \<Rightarrow> json \<times> 's world" where
  "get_lab_nodes srv rt lab_id w =
     (if cml_auth w = None then (not_initialized_str, w)
      else (case request_json srv ''GET'' (''/api/v0/labs/'' @ lab_id @ ''/nodes'') [] None w of
              (Inl e, w') \<Rightarrow> (JStr (''Error getting lab nodes: '' @ str_exc rt e), w')
            | (Inr nodes, w') \<Rightarrow>
                (case nodes of
                   JList xs \<Rightarrow>
                     (case nodes_to_dict xs [] of
                        Inl e \<Rightarrow> (JStr (''Error getting lab nodes: '' @ str_exc rt e), w')
                      | Inr result \<Rightarrow> (JDict result, w'))
                 | _ \<Rightarrow> (nodes, w'))))"

subsection \<open>Interfaces\<close>

text \<open>
  What \<open>get_node_interfaces\<close> returns for the decoded response: a list as it is, a
  string whose length is a multiple of 36 cut into pieces of 36 characters, any other
  string and any other value as it is.
\<close>

definition get_node_interfaces_decode :: "json \<Rightarrow> json" where
  "get_node_interfaces_decode interfaces =
     (case interfaces of
        JList xs \<Rightarrow> JList xs
      | JStr s \<Rightarrow>
          (if length s mod 36 = 0 then JList (map JStr (chunks36 s)) else JStr s)
      | _ \<Rightarrow> interfaces)"

definition get_node_interfaces ::
  "'s server \<Rightarrow> pyrt \<Rightarrow> string \<Rightarrow> string \<Rightarrow> 's world \<Rightarrow> json \<times> 's world" where
  "get_node_interfaces srv rt lab_id node_id w =
     (if cml_auth w = None then (not_initialized_str, w)
      else (case request_json srv ''GET''
                   (''/api/v0/labs/'' @ lab_id @ ''/nodes/'' @ node_id @ ''/interfaces'')
                   [] None w of
              (Inl e, w') \<Rightarrow> (JStr (''Error getting node interfaces: '' @ str_exc rt e), w')
            | (Inr interfaces, w') \<Rightarrow> (get_node_interfaces_decode interfaces, w')))"

text \<open>\<open>type(x)\<close> as an f-string prints it.\<close>

definition py_type :: "json \<Rightarrow> string" where
  "py_type v =
     ''<class '' @ [CHR 0x27] @
     (case v of
        JNull \<Rightarrow> ''NoneType''
      | JBool _ \<Rightarrow> ''bool''
      | JInt _ \<Rightarrow> ''int''
      | JFloat _ \<Rightarrow> ''float''
      | JStr _ \<Rightarrow> ''str''
      | JList _ \<Rightarrow> ''list''
      | JDict _ \<Rightarrow> ''dict'')
     @ [CHR 0x27] @ ''>''"

text \<open>
  The identifiers \<open>get_physical_interfaces\<close> reads from what \<open>get_node_interfaces\<close>
  returned (\<open>Inr\<close>), or the value it returns at once (\<open>Inl\<close>).
\<close>

definition get_physical_interfaces_ids :: "json \<Rightarrow> json + json list" where
  "get_physical_interfaces_ids interfaces_response =
     (case interfaces_response of
        JStr s \<Rightarrow>
          (if str_contains ''Error'' s then Inl (JStr s)
           else if length s mod 36 = 0 then Inr (map JStr (chunks36 s))
           else Inl (JStr (''Unexpected interface response format: '' @ s)))
      | JList xs \<Rightarrow> Inr xs
      | JDict kvs \<Rightarrow> Inr (dict_keys kvs)
      | _ \<Rightarrow> Inl (JStr (''Unexpected interface response type: ''
                          @ py_type interfaces_response)))"




subsection \<open>Links\<close>

definition links_url :: "string \<Rightarrow> string" where
  "links_url lab_id = ''/api/v0/labs/'' @ lab_id @ ''/links''"

text \<open>The two payload formats of \<open>create_link_v3\<close>, in the order it tries them.\<close>

definition link_data_1 :: "string \<Rightarrow> string \<Rightarrow> json" where
  "link_data_1 interface_id_a interface_id_b =
     JDict [(JStr ''i1'', JStr interface_id_a), (JStr ''i2'', JStr interface_id_b)]"

definition link_data_2 :: "string \<Rightarrow> string \<Rightarrow> json" where
  "link_data_2 interface_id_a interface_id_b =
     JDict [(JStr ''src_int'', JStr interface_id_a), (JStr ''dst_int'', JStr interface_id_b)]"

definition link_created :: "string \<Rightarrow> string \<Rightarrow> json \<Rightarrow> json \<Rightarrow> json" where
  "link_created interface_id_a interface_id_b link_id result =
     JDict [(JStr ''link_id'', link_id),
            (JStr ''message'',
             JStr (''Created link between interfaces '' @ interface_id_a
                   @ '' and '' @ interface_id_b)),
            (JStr ''status'', JStr ''success''),
            (JStr ''details'', result)]"

definition all_formats_failed :: json where
  "all_formats_failed =
     JDict [(JStr ''error'',
             JStr ''Failed to create link - all payload formats were tried and failed'')]"

text \<open>
  One \<open>try\<close> block of \<open>create_link_v3\<close>: post the payload and read the \<open>id\<close> of the
  answer. The result is the link identifier and the answer when the block returns, and
  \<open>None\<close> when it falls through: the answer has no (truthy) \<open>id\<close>, or an exception was
  caught and printed.
\<close>

definition link_attempt ::
  "'s server \<Rightarrow> string \<Rightarrow> json \<Rightarrow> 's world \<Rightarrow> (json \<times> json) option \<times> 's world" where
  "link_attempt srv lab_id link_data w =
     (case request_json srv ''POST'' (links_url lab_id) [] (Some link_data) w of
        (Inl e, w') \<Rightarrow> (None, w')
      | (Inr result, w') \<Rightarrow>
          (case py_get result ''id'' JNull of
             Inl e \<Rightarrow> (None, w')
           | Inr link_id \<Rightarrow>
               (if py_truthy link_id then (Some (link_id, result), w') else (None, w'))))"

text \<open>
  \<open>create_link_v3\<close>. The name \<open>create_link_with_retry\<close> it looks for among the globals is
  bound nowhere in the module, so that branch is never taken.
\<close>

definition create_link_v3 ::
  "'s server \<Rightarrow> string \<Rightarrow> string \<Rightarrow> string \<Rightarrow> 's world \<Rightarrow> json \<times> 's world" where
  "create_link_v3 srv lab_id interface_id_a interface_id_b w =
     (if cml_auth w = None then (not_initialized_dict, w)
      else (case link_attempt srv lab_id (link_data_1 interface_id_a interface_id_b) w of
              (Some (link_id, result), w1) \<Rightarrow>
                (link_created interface_id_a interface_id_b link_id result, w1)
            | (None, w1) \<Rightarrow>
                (case link_attempt srv lab_id (link_data_2 interface_id_a interface_id_b) w1 of
                   (Some (link_id, result), w2) \<Rightarrow>
                     (link_created interface_id_a interface_id_b link_id result, w2)
                 | (None, w2) \<Rightarrow> (all_formats_failed, w2))))"

text \<open>
  \<open>link_nodes\<close> makes lists of what the two interface endpoints returned: a string is
  split at whitespace, a dictionary gives its keys, anything else stays.
\<close>

definition link_nodes_interfaces :: "json \<Rightarrow> json" where
  "link_nodes_interfaces interfaces =
     (if \<not> isinstance_list interfaces
      then (case interfaces of
              JStr s \<Rightarrow> JList (map JStr (py_split s))
            | JDict kvs \<Rightarrow> JList (dict_keys kvs)
            | _ \<Rightarrow> interfaces)
      else interfaces)"










subsection \<open>Waiting for the nodes of a lab\<close>

definition node_url :: "pyrt \<Rightarrow> string \<Rightarrow> json \<Rightarrow> string" where
  "node_url rt lab_id node_id = ''/api/v0/labs/'' @ lab_id @ ''/nodes/'' @ fmt rt node_id"

text \<open>
  The \<open>for\<close> loop of one tick: every node's state is fetched, and \<open>all_ready\<close> falls
  to \<open>False\<close> at each node whose state is not \<open>STARTED\<close>.
\<close>

fun poll_nodes ::
  "'s server \<Rightarrow> pyrt \<Rightarrow> string \<Rightarrow> (json \<times> json) list \<Rightarrow> bool \<Rightarrow> 's world
    \<Rightarrow> (py_exc + bool) \<times> 's world" where
  "poll_nodes srv rt lab_id [] all_ready w = (Inr all_ready, w)"
| "poll_nodes srv rt lab_id ((node_id, node) # rest) all_ready w =
     (case request_json srv ''GET'' (node_url rt lab_id node_id) [] None w of
        (Inl e, w') \<Rightarrow> (Inl e, w')
      | (Inr node_data, w') \<Rightarrow>
          (case py_get node_data ''state'' (JStr ''UNKNOWN'') of
             Inl e \<Rightarrow> (Inl e, w')
           | Inr state \<Rightarrow>
               poll_nodes srv rt lab_id rest
                 (if \<not> py_eq state (JStr ''STARTED'') then False else all_ready) w'))"

text \<open>One tick: \<open>all_ready = True\<close>, then the loop over \<open>nodes.items()\<close>.\<close>

definition poll_tick ::
  "'s server \<Rightarrow> pyrt \<Rightarrow> string \<Rightarrow> json \<Rightarrow> 's world \<Rightarrow> (py_exc + bool) \<times> 's world" where
  "poll_tick srv rt lab_id nodes w =
     (case py_items nodes of
        Inl e \<Rightarrow> (Inl e, w)
      | Inr kvs \<Rightarrow> poll_nodes srv rt lab_id kvs True w)"

text \<open>
  What an exchange and an authentication leave alone: the clock does not go back, nothing
  sleeps, no call of \<open>request\<close> is logged, and the session stays.
\<close>

definition frame :: "'s world \<Rightarrow> 's world \<Rightarrow> bool" where
  "frame w w' = (clock w \<le> clock w' \<and> slept w' = slept w \<and> calls w' = calls w
      \<and> (cml_auth w \<noteq> None \<longrightarrow> cml_auth w' \<noteq> None))"

lemma frame_refl: "frame w w"
  by (simp add: frame_def)

lemma frame_trans: "frame w1 w2 \<Longrightarrow> frame w2 w3 \<Longrightarrow> frame w1 w3"
  by (auto simp add: frame_def)

lemma client_send_frame: "client_send srv m url hs body w = (r, w') \<Longrightarrow> frame w w'"
  by (auto simp add: client_send_def frame_def Let_def split: option.splits prod.splits)

lemma authenticate_frame: "authenticate srv w = (r, w') \<Longrightarrow> frame w w'"
  unfolding authenticate_def Let_def
  by (auto split: option.splits prod.splits sum.splits dest!: client_send_frame simp add: frame_def)

text \<open>One call of \<open>request\<close> was made, and logged.\<close>

definition called :: "string \<Rightarrow> string \<Rightarrow> json option \<Rightarrow> 's world \<Rightarrow> 's world \<Rightarrow> bool" where
  "called m url body w w' = (clock w \<le> clock w' \<and> slept w' = slept w
      \<and> calls w' = calls w @ [(m, url, body)] \<and> cml_auth w' \<noteq> None)"

lemma request_called:
  assumes rq: "request srv m url hs body w = (r, w')" and a: "cml_auth w = Some a"
  shows "called m url body w w'"
proof -
  define w0 where "w0 = w\<lparr>calls := calls w @ [(m, url, body)]\<rparr>"
  have c0: "called m url body w w0"
    using a by (simp add: called_def w0_def)
  have ext: "frame w0 v \<Longrightarrow> called m url body w v" for v
    using c0 by (auto simp add: called_def frame_def)
  obtain r1 w2 where s1: "(if token_missing a then authenticate srv w0 else (Inr [], w0)) = (r1, w2)"
    by (cases "if token_missing a then authenticate srv w0 else (Inr [], w0)")
  have f2: "frame w0 w2"
    using s1 by (auto split: if_splits intro: frame_refl authenticate_frame)
  obtain r3 w3 where s3: "client_send srv m url
      (hdr_set hs ''Authorization'' (bearer (current_token w2))) body w2 = (r3, w3)"
    by (cases "client_send srv m url
      (hdr_set hs ''Authorization'' (bearer (current_token w2))) body w2")
  have f3: "frame w0 w3"
    using f2 client_send_frame [OF s3] by (rule frame_trans)
  obtain r4 w4 where s4: "authenticate srv w3 = (r4, w4)"
    by (cases "authenticate srv w3")
  have f4: "frame w0 w4"
    using f3 authenticate_frame [OF s4] by (rule frame_trans)
  obtain r5 w5 where s5: "client_send srv m url
      (hdr_set (hdr_set hs ''Authorization'' (bearer (current_token w2)))
         ''Authorization'' (bearer (current_token w4))) body w4 = (r5, w5)"
    by (cases "client_send srv m url
      (hdr_set (hdr_set hs ''Authorization'' (bearer (current_token w2)))
         ''Authorization'' (bearer (current_token w4))) body w4")
  have f5: "frame w0 w5"
    using f4 client_send_frame [OF s5] by (rule frame_trans)
  have "w' = w2 \<or> w' = w3 \<or> w' = w4 \<or> w' = w5"
    using rq a s1 s3 s4 s5 unfolding request_def Let_def w0_def [symmetric]
    by (simp split: sum.splits if_splits) 
  then show ?thesis
    using ext f2 f3 f4 f5 by blast
qed

lemma request_json_called:
  assumes "request_json srv m url hs body w = (r, w')" and "cml_auth w = Some a"
  shows "called m url body w w'"
proof -
  obtain r0 w0 where s0: "request srv m url hs body w = (r0, w0)"
    by (cases "request srv m url hs body w")
  have "w' = w0"
    using assms(1) s0 by (simp add: request_json_def split: sum.splits)
  then show ?thesis
    using request_called [OF s0 assms(2)] by simp
qed

lemma request_json_clock:
  assumes "request_json srv m url hs body w = (r, w')"
  shows "clock w \<le> clock w'"
proof (cases "cml_auth w")
  case None
  then have "w' = w"
    using assms by (simp add: request_json_def request_def)
  then show ?thesis by simp
next
  case (Some a)
  then show ?thesis
    using request_json_called [OF assms] by (simp add: called_def)
qed

lemma poll_nodes_clock: "poll_nodes srv rt lab kvs b w = (r, w') \<Longrightarrow> clock w \<le> clock w'"
proof (induction kvs arbitrary: b w)
  case Nil
  then show ?case by simp
next
  case (Cons kv kvs)
  obtain node_id node where kv: "kv = (node_id, node)" by (cases kv)
  obtain r1 w1 where s1:
    "request_json srv ''GET'' (node_url rt lab node_id) [] None w = (r1, w1)"
    by (cases "request_json srv ''GET'' (node_url rt lab node_id) [] None w")
  have c1: "clock w \<le> clock w1" using s1 by (rule request_json_clock)
  show ?case
  proof (cases r1)
    case (Inl e)
    then show ?thesis using Cons.prems c1 s1 by (simp add: kv)
  next
    case (Inr node_data)
    show ?thesis
    proof (cases "py_get node_data ''state'' (JStr ''UNKNOWN'')")
      case (Inl e)
      then show ?thesis using Cons.prems c1 s1 Inr by (simp add: kv)
    next
      case st: (Inr state)
      have "poll_nodes srv rt lab kvs
              (if \<not> py_eq state (JStr ''STARTED'') then False else b) w1 = (r, w')"
        using Cons.prems s1 Inr st by (simp add: kv)
      then have "clock w1 \<le> clock w'" by (rule Cons.IH)
      then show ?thesis using c1 by simp
    qed
  qed
qed

lemma poll_tick_clock: "poll_tick srv rt lab nodes w = (r, w') \<Longrightarrow> clock w \<le> clock w'"
  unfolding poll_tick_def
  by (auto split: sum.splits dest: poll_nodes_clock)

text \<open>
  The \<open>while\<close> loop of \<open>wait_for_lab_nodes\<close>: as long as the nodes are not all
  ready and the time since \<open>start_time\<close> is below the timeout, poll every node, and
  sleep five seconds when one was not ready. It terminates because each round that goes
  on sleeps, and no exchange turns the clock back.
\<close>

function poll_loop ::
  "'s server \<Rightarrow> pyrt \<Rightarrow> string \<Rightarrow> json \<Rightarrow> int \<Rightarrow> int \<Rightarrow> bool \<Rightarrow> 's world
    \<Rightarrow> (py_exc + bool) \<times> 's world" where
  "poll_loop srv rt lab_id nodes start_time timeout all_ready w =
     (if \<not> all_ready \<and> clock w - start_time < timeout
      then (case poll_tick srv rt lab_id nodes w of
              (Inl e, w') \<Rightarrow> (Inl e, w')
            | (Inr ready, w') \<Rightarrow>
                poll_loop srv rt lab_id nodes start_time timeout ready
                  (if \<not> ready then sleep 5 w' else w'))
      else (Inr all_ready, w))"
  by pat_completeness auto
termination
proof (relation "measure (\<lambda>(srv, rt, lab_id, nodes, start_time, timeout, all_ready, w).
          if all_ready then 0 else 1 + nat (timeout - (clock w - start_time)))", goal_cases)
  case 1
  then show ?case by simp
next
  case (2 srv rt lab_id nodes start_time timeout all_ready w x1 x2 ready)
  have "clock w \<le> clock x2"
    using 2(2) poll_tick_clock [of srv rt lab_id nodes w x1 x2] by simp
  then show ?case
    using 2(1) by (simp add: sleep_def)
qed

declare poll_loop.simps [simp del]

definition lab_not_started :: json where
  "lab_not_started = JStr ''Lab is not in STARTED state. Start the lab first.''"

definition all_nodes_ready :: json where
  "all_nodes_ready = JStr ''All nodes in the lab are initialized and ready''"

definition timeout_reached :: "pyrt \<Rightarrow> int \<Rightarrow> json" where
  "timeout_reached rt timeout =
     JStr (''Timeout reached ('' @ fmt rt (JInt timeout)
           @ '' seconds). Some nodes may not be fully initialized.'')"

text \<open>\<open>isinstance(nodes, str) and "Error" in nodes\<close>.\<close>

definition is_error_str :: "json \<Rightarrow> bool" where
  "is_error_str v = (case v of JStr s \<Rightarrow> str_contains ''Error'' s | _ \<Rightarrow> False)"

text \<open>\<open>not isinstance(lab_details, dict) or lab_details.get("state") != "STARTED"\<close>.\<close>

definition not_started :: "json \<Rightarrow> bool" where
  "not_started lab_details =
     (\<not> isinstance_dict lab_details \<or>
      (case py_get lab_details ''state'' JNull of
         Inl e \<Rightarrow> True
       | Inr st \<Rightarrow> \<not> py_eq st (JStr ''STARTED'')))"

definition wait_for_lab_nodes ::
  "'s server \<Rightarrow> pyrt \<Rightarrow> string \<Rightarrow> int \<Rightarrow> 's world \<Rightarrow> json \<times> 's world" where
  "wait_for_lab_nodes srv rt lab_id timeout w =
     (if cml_auth w = None then (not_initialized_str, w)
      else (case get_lab_details srv rt lab_id w of
              (lab_details, w1) \<Rightarrow>
                (if not_started lab_details then (lab_not_started, w1)
                 else (case get_lab_nodes srv rt lab_id w1 of
                         (nodes, w2) \<Rightarrow>
                           (if is_error_str nodes then (nodes, w2)
                            else (case poll_loop srv rt lab_id nodes (clock w2) timeout False w2 of
                                    (Inl e, w3) \<Rightarrow>
                                      (JStr (''Error waiting for nodes: '' @ str_exc rt e), w3)
                                  | (Inr all_ready, w3) \<Rightarrow>
                                      (if all_ready then (all_nodes_ready, w3)
                                       else (timeout_reached rt timeout, w3))))))))"

section \<open>What the proofs observe\<close>








text \<open>
  The calls of \<open>request\<close> a run added to the log, and: the answer to a posted link is a
  response whose JSON object holds the (truthy) link identifier \<open>link_id\<close> under \<open>id\<close>.
\<close>

definition new_calls :: "'s world \<Rightarrow> 's world \<Rightarrow> (string \<times> string \<times> json option) list" where
  "new_calls w w' = drop (length (calls w)) (calls w')"

definition has_link_id :: "py_exc + json \<Rightarrow> json \<Rightarrow> json \<Rightarrow> bool" where
  "has_link_id x link_id result =
     (x = Inr result \<and>
      (\<exists>kvs. result = JDict kvs \<and> dict_get kvs (JStr ''id'') JNull = link_id
             \<and> py_truthy link_id))"







section \<open>Example data\<close>

text \<open>Two identifiers of 36 characters.\<close>

definition id_a :: string where "id_a = ''11111111-aaaa-4bbb-8ccc-000000000001''"
definition id_b :: string where "id_b = ''22222222-aaaa-4bbb-8ccc-000000000002''"

text \<open>
  A response with status 200 and a JSON body; a table for what \<open>str()\<close> prints; a session
  that holds a token, the state of a client after \<open>initialize_client\<close>, and the state
  before it; a server that gives the same answer to every request.
\<close>

definition ok_json :: "json \<Rightarrow> http_response" where
  "ok_json v = \<lparr>status_code = 200, body_text = [], body_json = Some v\<rparr>"

definition rt0 :: pyrt where
  "rt0 = \<lparr>str_exc = (\<lambda>e. ''exception''), str_val = (\<lambda>v. ''value'')\<rparr>"

definition session0 :: cml_auth_t where
  "session0 = \<lparr>base_url = ''https://cml'', username = ''admin'', password = ''secret'',
     token = Some ''t0'', verify_ssl = True,
     client_headers = [(''Authorization'', ''Bearer t0'')]\<rparr>"

definition world0 :: "'s \<Rightarrow> 's world" where
  "world0 s = \<lparr>cml_auth = Some session0, server = s, clock = 0, sent = [], calls = [],
     slept = []\<rparr>"


definition srv_const :: "http_response \<Rightarrow> unit server" where
  "srv_const r s rq = (Some r, 0, ())"



text \<open>
  The answer 400; a server that creates a link only for the payload \<open>{src_int, dst_int}\<close>
  and rejects any other; a server whose lab is stopped.
\<close>

definition bad_request :: http_response where
  "bad_request = \<lparr>status_code = 400, body_text = ''Bad Request'', body_json = None\<rparr>"

definition srv_src_dst :: "unit server" where
  "srv_src_dst s rq =
     (case req_json rq of
        Some (JDict ((JStr k, v) # kvs)) \<Rightarrow>
          (if k = ''src_int'' then (Some (ok_json (JDict [(JStr ''id'', JStr ''l0'')])), 0, ())
           else (Some bad_request, 0, ()))
      | _ \<Rightarrow> (Some bad_request, 0, ()))"

definition srv_stopped :: "unit server" where
  "srv_stopped s rq = (Some (ok_json (JDict [(JStr ''state'', JStr ''STOPPED'')])), 0, ())"











section \<open>Properties\<close>

subsection \<open>The decoding of identifier lists\<close>

lemma length_chunks36: "length (chunks36 s) = (length s + 35) div 36"
  by (simp add: chunks36_def range36_def)

lemma concat_chunks_take:
  "concat (map (\<lambda>k. take 36 (drop (36 * k) s)) [0 ..< m]) = take (36 * m) s"
proof (induction m)
  case 0
  then show ?case by simp
next
  case (Suc m)
  have "take (36 * Suc m) s = take (36 * m) s @ take 36 (drop (36 * m) s)"
    using take_add [of "36 * m" 36 s] by (simp add: add.commute)
  then show ?case using Suc by simp
qed

lemma concat_chunks36:
  assumes "length s = 36 * q"
  shows "concat (chunks36 s) = s"
  using assms by (simp add: chunks36_def range36_def o_def concat_chunks_take)

lemma nth_chunks36:
  "k < (length s + 35) div 36 \<Longrightarrow> chunks36 s ! k = take 36 (drop (36 * k) s)"
  by (simp add: chunks36_def range36_def)

lemma chunk_length36:
  assumes "length s = 36 * q" and "c \<in> set (chunks36 s)"
  shows "length c = 36"
proof -
  obtain k where k: "k < q" and c: "c = take 36 (drop (36 * k) s)"
    using assms by (auto simp add: chunks36_def range36_def)
  have "36 * k + 36 \<le> 36 * q"
    using k by simp
  then show ?thesis by (simp add: c assms(1))
qed

text \<open>
  C3, as the code has it. A string whose length is a multiple of 36 is cut by
  \<open>get_node_interfaces\<close> into \<open>len/36\<close> pieces of exactly 36 characters, in order,
  whose concatenation is the string, and \<open>get_physical_interfaces\<close> reads these pieces as
  the identifiers. A string of any other length is returned by \<open>get_node_interfaces\<close>
  as the bare string it is, not as a sequence of one element, and
  \<open>get_physical_interfaces\<close> then returns a message: the string itself when it contains
  "Error", "Unexpected interface response format: ..." otherwise.
\<close>

theorem decode_string:
  "(length s mod 36 = 0 \<longrightarrow>
      get_node_interfaces_decode (JStr s) = JList (map JStr (chunks36 s))
      \<and> length (chunks36 s) = length s div 36
      \<and> (\<forall>c \<in> set (chunks36 s). length c = 36)
      \<and> (\<forall>k < length s div 36. chunks36 s ! k = take 36 (drop (36 * k) s))
      \<and> concat (chunks36 s) = s
      \<and> get_physical_interfaces_ids (get_node_interfaces_decode (JStr s))
          = Inr (map JStr (chunks36 s)))
   \<and> (length s mod 36 \<noteq> 0 \<longrightarrow>
      get_node_interfaces_decode (JStr s) = JStr s
      \<and> get_physical_interfaces_ids (get_node_interfaces_decode (JStr s))
          = Inl (JStr (if str_contains ''Error'' s then s
                       else ''Unexpected interface response format: '' @ s)))"
proof (intro conjI impI)
  assume m: "length s mod 36 = 0"
  then obtain q where q: "length s = 36 * q"
    by (auto simp add: mod_eq_0_iff_dvd)
  show "get_node_interfaces_decode (JStr s) = JList (map JStr (chunks36 s))"
    using m by (simp add: get_node_interfaces_decode_def)
  show "length (chunks36 s) = length s div 36"
    by (simp add: length_chunks36 q)
  show "\<forall>c \<in> set (chunks36 s). length c = 36"
    using chunk_length36 [OF q] by blast
  show "\<forall>k < length s div 36. chunks36 s ! k = take 36 (drop (36 * k) s)"
    using nth_chunks36 [of _ s] by (simp add: q)
  show "concat (chunks36 s) = s"
    using q by (rule concat_chunks36)
  show "get_physical_interfaces_ids (get_node_interfaces_decode (JStr s))
          = Inr (map JStr (chunks36 s))"
    using m by (simp add: get_node_interfaces_decode_def get_physical_interfaces_ids_def)
next
  assume m: "length s mod 36 \<noteq> 0"
  show "get_node_interfaces_decode (JStr s) = JStr s"
    using m by (simp add: get_node_interfaces_decode_def)
  show "get_physical_interfaces_ids (get_node_interfaces_decode (JStr s))
          = Inl (JStr (if str_contains ''Error'' s then s
                       else ''Unexpected interface response format: '' @ s))"
    using m by (simp add: get_node_interfaces_decode_def get_physical_interfaces_ids_def)
qed

lemma length_ids: "length id_a = 36" "length id_b = 36"
  by (simp_all add: id_a_def id_b_def)

lemma chunks36_two: "chunks36 (id_a @ id_b) = [id_a, id_b]"
  by (simp add: chunks36_def range36_def length_ids upt_conv_Cons)

text \<open>C3 at two concatenated identifiers, and at a string of 37 characters.\<close>

theorem decode_string_witness:
  "length (id_a @ id_b) mod 36 = 0
   \<and> get_node_interfaces_decode (JStr (id_a @ id_b)) = JList [JStr id_a, JStr id_b]
   \<and> concat (chunks36 (id_a @ id_b)) = id_a @ id_b
   \<and> length (id_a @ ''x'') mod 36 \<noteq> 0
   \<and> get_node_interfaces_decode (JStr (id_a @ ''x'')) = JStr (id_a @ ''x'')"
  using decode_string [of "id_a @ id_b"] decode_string [of "id_a @ ''x''"]
  by (simp add: length_ids chunks36_two)

lemma no_error_in_id: "\<not> str_contains ''Error'' (id_a @ ''x'')"
  by (simp add: id_a_def)

text \<open>
  C3 as the specification states it fails: a string of 37 characters is not turned into
  a sequence of one element, and \<open>get_physical_interfaces\<close> reports a failure for it.
\<close>

theorem decode_37_counterexample:
  "length (id_a @ ''x'') = 37
   \<and> get_node_interfaces_decode (JStr (id_a @ ''x'')) \<noteq> JList [JStr (id_a @ ''x'')]
   \<and> get_physical_interfaces_ids (get_node_interfaces_decode (JStr (id_a @ ''x'')))
       = Inl (JStr (''Unexpected interface response format: '' @ id_a @ ''x''))"
  by (simp add: length_ids no_error_in_id get_node_interfaces_decode_def
      get_physical_interfaces_ids_def)

subsection \<open>Running the model on the examples\<close>

lemmas run_defs = request_json_def request_def client_send_def authenticate_def
  token_missing_def current_token_def bearer_def raise_for_status_def resp_json_def
  hdr_update_def Let_def world0_def session0_def ok_json_def

subsection \<open>The empty string\<close>

text \<open>
  C10. The empty string has length 0, a multiple of 36, so \<open>get_node_interfaces\<close> cuts it
  into no pieces: when the endpoint answers with the empty string, the tool returns the
  empty list, neither a list holding the empty string nor an error message.
\<close>

theorem empty_string_decodes_to_empty_list:
  "get_node_interfaces_decode (JStr []) = JList []
   \<and> (cml_auth w \<noteq> None \<longrightarrow>
        request_json srv ''GET''
          (''/api/v0/labs/'' @ lab_id @ ''/nodes/'' @ node_id @ ''/interfaces'') [] None w
          = (Inr (JStr []), w')
        \<longrightarrow> get_node_interfaces srv rt lab_id node_id w = (JList [], w'))"
  by (simp add: get_node_interfaces_def get_node_interfaces_decode_def chunks36_def range36_def)

text \<open>C10 on a server that answers every request with the empty JSON string.\<close>

theorem empty_string_witness:
  "cml_auth (world0 ()) \<noteq> None
   \<and> fst (request_json (srv_const (ok_json (JStr []))) ''GET''
          (''/api/v0/labs/'' @ ''lab1'' @ ''/nodes/'' @ ''n1'' @ ''/interfaces'') [] None
          (world0 ())) = Inr (JStr [])
   \<and> fst (get_node_interfaces (srv_const (ok_json (JStr []))) rt0 ''lab1'' ''n1'' (world0 ()))
       = JList []"
  using empty_string_decodes_to_empty_list [of "world0 ()" "srv_const (ok_json (JStr []))"
      "''lab1''" "''n1''"
      "snd (request_json (srv_const (ok_json (JStr []))) ''GET''
          (''/api/v0/labs/'' @ ''lab1'' @ ''/nodes/'' @ ''n1'' @ ''/interfaces'') [] None
          (world0 ()))" rt0]
  by (simp add: run_defs srv_const_def)

subsection \<open>Before the client is initialized\<close>



subsection \<open>The three decodings of an identifier list\<close>

lemma split_two_ids: "py_split (id_a @ id_b) = [id_a @ id_b]"
  by (simp add: py_split_def id_a_def id_b_def py_isspace_def)

text \<open>
  C4 fails on the code. For two identifiers concatenated without a delimiter,
  \<open>get_node_interfaces\<close> and \<open>get_physical_interfaces\<close> read two identifiers of 36
  characters, and \<open>link_nodes\<close>, which splits at whitespace, reads one identifier of 72
  characters. For a dictionary, \<open>get_node_interfaces\<close> returns the dictionary itself
  where the two others take its keys.
\<close>

theorem link_nodes_decodes_differently:
  "get_node_interfaces_decode (JStr (id_a @ id_b)) = JList [JStr id_a, JStr id_b]
   \<and> get_physical_interfaces_ids (get_node_interfaces_decode (JStr (id_a @ id_b)))
       = Inr [JStr id_a, JStr id_b]
   \<and> link_nodes_interfaces (JStr (id_a @ id_b)) = JList [JStr (id_a @ id_b)]
   \<and> get_node_interfaces_decode (JDict [(JStr id_a, JNull)]) = JDict [(JStr id_a, JNull)]
   \<and> link_nodes_interfaces (JDict [(JStr id_a, JNull)]) = JList [JStr id_a]"
  by (simp add: get_node_interfaces_decode_def get_physical_interfaces_ids_def
      link_nodes_interfaces_def isinstance_list_def dict_keys_def length_ids chunks36_two
      split_two_ids)

subsection \<open>The session manager\<close>













subsection \<open>A lab that is not started\<close>

lemma py_eq_str: "py_eq v (JStr s) = (v = JStr s)"
  by (cases v) (simp_all add: py_eq_def py_num_def)

lemma new_calls_called: "called m url body w w' \<Longrightarrow> new_calls w w' = [(m, url, body)]"
  by (simp add: called_def new_calls_def)

text \<open>
  C7. The client is initialized and the details fetched for the lab do not say that its
  state is \<open>STARTED\<close> (they are not an object, or their \<open>state\<close> is another value or
  missing). Then \<open>wait_for_lab_nodes\<close> returns "Lab is not in STARTED state. Start the
  lab first." in the state the fetch of the details left: the only call of \<open>request\<close> is
  that fetch, so no node is polled, and nothing sleeps.
\<close>

theorem wait_not_started:
  assumes auth: "cml_auth w \<noteq> None"
    and details: "get_lab_details srv rt lab_id w = (lab_details, w1)"
    and state: "\<forall>kvs. lab_details = JDict kvs
                 \<longrightarrow> dict_get kvs (JStr ''state'') JNull \<noteq> JStr ''STARTED''"
  shows "wait_for_lab_nodes srv rt lab_id timeout w
           = (JStr ''Lab is not in STARTED state. Start the lab first.'', w1)
         \<and> slept w1 = slept w
         \<and> new_calls w w1 = [(''GET'', ''/api/v0/labs/'' @ lab_id, None)]"
proof -
  obtain a where a: "cml_auth w = Some a" using auth by blast
  obtain x w0 where rq: "request_json srv ''GET'' (''/api/v0/labs/'' @ lab_id) [] None w = (x, w0)"
    by (cases "request_json srv ''GET'' (''/api/v0/labs/'' @ lab_id) [] None w")
  have "w1 = w0"
    using details a rq by (simp add: get_lab_details_def split: sum.splits)
  then have c: "called ''GET'' (''/api/v0/labs/'' @ lab_id) None w w1"
    using request_json_called [OF rq a] by simp
  have ns: "not_started lab_details"
    using state by (cases lab_details)
      (simp_all add: not_started_def isinstance_dict_def py_get_def py_eq_str)
  have "wait_for_lab_nodes srv rt lab_id timeout w = (lab_not_started, w1)"
    using a details ns by (simp add: wait_for_lab_nodes_def)
  then show ?thesis
    using c new_calls_called [OF c] by (simp add: lab_not_started_def called_def)
qed

text \<open>C7 on a server whose lab is stopped.\<close>

theorem wait_not_started_witness:
  "cml_auth (world0 ()) \<noteq> None
   \<and> fst (get_lab_details srv_stopped rt0 ''lab1'' (world0 ()))
       = JDict [(JStr ''state'', JStr ''STOPPED'')]
   \<and> fst (wait_for_lab_nodes srv_stopped rt0 ''lab1'' 60 (world0 ()))
       = JStr ''Lab is not in STARTED state. Start the lab first.''
   \<and> slept (snd (wait_for_lab_nodes srv_stopped rt0 ''lab1'' 60 (world0 ()))) = []
   \<and> calls (snd (wait_for_lab_nodes srv_stopped rt0 ''lab1'' 60 (world0 ())))
       = [(''GET'', ''/api/v0/labs/lab1'', None)]"
proof -
  have h1: "cml_auth (world0 ()) \<noteq> None" by (simp add: world0_def)
  have h2: "get_lab_details srv_stopped rt0 ''lab1'' (world0 ())
      = (JDict [(JStr ''state'', JStr ''STOPPED'')],
         snd (get_lab_details srv_stopped rt0 ''lab1'' (world0 ())))"
    by (simp add: get_lab_details_def run_defs srv_stopped_def)
  have h3: "\<forall>kvs. JDict [(JStr ''state'', JStr ''STOPPED'')] = JDict kvs
      \<longrightarrow> dict_get kvs (JStr ''state'') JNull \<noteq> JStr ''STARTED''"
    by (simp add: py_eq_str)
  note wait_not_started [OF h1 h2 h3, of 60]
  then show ?thesis
    using h1 h2 by (simp add: get_lab_details_def run_defs srv_stopped_def)
qed

subsection \<open>Creating a link between two interfaces\<close>

lemma link_attempt_found:
  assumes "request_json srv ''POST'' (links_url lab_id) [] (Some link_data) w = (x, w')"
    and "has_link_id x link_id result"
  shows "link_attempt srv lab_id link_data w = (Some (link_id, result), w')"
  using assms by (auto simp add: link_attempt_def has_link_id_def py_get_def)

lemma link_attempt_none:
  assumes "request_json srv ''POST'' (links_url lab_id) [] (Some link_data) w = (x, w')"
    and "\<forall>link_id result. \<not> has_link_id x link_id result"
  shows "link_attempt srv lab_id link_data w = (None, w')"
proof (cases x)
  case (Inl e)
  then show ?thesis using assms(1) by (simp add: link_attempt_def)
next
  case (Inr result)
  show ?thesis
  proof (cases result)
    case (JDict kvs)
    then have "\<not> py_truthy (dict_get kvs (JStr ''id'') JNull)"
      using assms(2) Inr by (simp add: has_link_id_def)
    then show ?thesis
      using assms(1) Inr JDict by (simp add: link_attempt_def py_get_def)
  qed (use assms(1) Inr in \<open>simp_all add: link_attempt_def py_get_def\<close>)
qed

text \<open>
  C2, as the code has it. The client is initialized; \<open>x1\<close> is the outcome of posting the
  payload \<open>{i1, i2}\<close> and \<open>x2\<close> the outcome of posting \<open>{src_int, dst_int}\<close> after it.
  When the first answer holds a link identifier, it is returned and only \<open>{i1, i2}\<close> was
  posted. Otherwise, whatever went wrong with the first attempt (an exception of the
  transport, a status that is not a success, a body that is not JSON or holds no
  identifier), \<open>{src_int, dst_int}\<close> is posted next, in this order, and its identifier is
  returned when its answer holds one. When neither answer holds an identifier the result
  is the fixed error "Failed to create link - all payload formats were tried and failed",
  which names no variant.
\<close>

theorem create_link_v3_variants:
  assumes auth: "cml_auth w \<noteq> None"
    and first: "request_json srv ''POST'' (links_url lab_id) []
                  (Some (link_data_1 interface_id_a interface_id_b)) w = (x1, w1)"
    and second: "request_json srv ''POST'' (links_url lab_id) []
                  (Some (link_data_2 interface_id_a interface_id_b)) w1 = (x2, w2)"
  shows "(\<forall>link_id result. has_link_id x1 link_id result \<longrightarrow>
            create_link_v3 srv lab_id interface_id_a interface_id_b w
              = (link_created interface_id_a interface_id_b link_id result, w1)
            \<and> new_calls w w1
                = [(''POST'', links_url lab_id,
                    Some (link_data_1 interface_id_a interface_id_b))])
       \<and> ((\<forall>link_id result. \<not> has_link_id x1 link_id result) \<longrightarrow>
            snd (create_link_v3 srv lab_id interface_id_a interface_id_b w) = w2
            \<and> new_calls w w2
                = [(''POST'', links_url lab_id,
                    Some (link_data_1 interface_id_a interface_id_b)),
                   (''POST'', links_url lab_id,
                    Some (link_data_2 interface_id_a interface_id_b))]
            \<and> (\<forall>link_id result. has_link_id x2 link_id result \<longrightarrow>
                  fst (create_link_v3 srv lab_id interface_id_a interface_id_b w)
                    = link_created interface_id_a interface_id_b link_id result)
            \<and> ((\<forall>link_id result. \<not> has_link_id x2 link_id result) \<longrightarrow>
                  fst (create_link_v3 srv lab_id interface_id_a interface_id_b w)
                    = JDict [(JStr ''error'',
                        JStr ''Failed to create link - all payload formats were tried and failed'')]))
       \<and> (\<forall>e. x1 = Inl e \<longrightarrow> (\<forall>link_id result. \<not> has_link_id x1 link_id result))"
proof -
  obtain a where a: "cml_auth w = Some a" using auth by blast
  have c1: "called ''POST'' (links_url lab_id)
      (Some (link_data_1 interface_id_a interface_id_b)) w w1"
    using request_json_called [OF first a] .
  then obtain a1 where a1: "cml_auth w1 = Some a1"
    by (auto simp add: called_def)
  have c2: "called ''POST'' (links_url lab_id)
      (Some (link_data_2 interface_id_a interface_id_b)) w1 w2"
    using request_json_called [OF second a1] .
  have calls2: "new_calls w w2
      = [(''POST'', links_url lab_id, Some (link_data_1 interface_id_a interface_id_b)),
         (''POST'', links_url lab_id, Some (link_data_2 interface_id_a interface_id_b))]"
    using c1 c2 by (simp add: called_def new_calls_def)
  have found1: "create_link_v3 srv lab_id interface_id_a interface_id_b w
      = (link_created interface_id_a interface_id_b link_id result, w1)"
    if "has_link_id x1 link_id result" for link_id result
    using a link_attempt_found [OF first that] by (simp add: create_link_v3_def)
  have found2: "create_link_v3 srv lab_id interface_id_a interface_id_b w
      = (link_created interface_id_a interface_id_b link_id result, w2)"
    if "\<forall>link_id result. \<not> has_link_id x1 link_id result" "has_link_id x2 link_id result"
    for link_id result
    using a link_attempt_none [OF first that(1)] link_attempt_found [OF second that(2)]
    by (simp add: create_link_v3_def)
  have none2: "create_link_v3 srv lab_id interface_id_a interface_id_b w
      = (all_formats_failed, w2)"
    if "\<forall>link_id result. \<not> has_link_id x1 link_id result"
       "\<forall>link_id result. \<not> has_link_id x2 link_id result"
    using a link_attempt_none [OF first that(1)] link_attempt_none [OF second that(2)]
    by (simp add: create_link_v3_def)
  have snd2: "snd (create_link_v3 srv lab_id interface_id_a interface_id_b w) = w2"
    if n1: "\<forall>link_id result. \<not> has_link_id x1 link_id result"
  proof (cases "\<exists>link_id result. has_link_id x2 link_id result")
    case True
    then show ?thesis using found2 [OF n1] by auto
  next
    case False
    then show ?thesis using none2 [OF n1] by simp
  qed
  have exc: "\<forall>e. x1 = Inl e \<longrightarrow> (\<forall>link_id result. \<not> has_link_id x1 link_id result)"
    by (simp add: has_link_id_def)
  show ?thesis
    using found1 new_calls_called [OF c1] snd2 calls2 found2 none2 exc
    by (simp add: all_formats_failed_def)
qed

text \<open>C2 on the server that accepts only the second payload.\<close>

lemmas link_defs = create_link_v3_def link_attempt_def link_data_1_def link_data_2_def
  links_url_def link_created_def all_formats_failed_def py_get_def py_truthy_def py_eq_def
  py_num_def srv_src_dst_def bad_request_def srv_const_def

theorem create_link_v3_variants_witness:
  "cml_auth (world0 ()) \<noteq> None
   \<and> fst (request_json srv_src_dst ''POST'' (links_url ''lab1'') []
            (Some (link_data_1 id_a id_b)) (world0 ())) = Inl (HTTPStatusError 400)
   \<and> fst (create_link_v3 srv_src_dst ''lab1'' id_a id_b (world0 ()))
       = link_created id_a id_b (JStr ''l0'') (JDict [(JStr ''id'', JStr ''l0'')])
   \<and> calls (snd (create_link_v3 srv_src_dst ''lab1'' id_a id_b (world0 ())))
       = [(''POST'', ''/api/v0/labs/lab1/links'',
           Some (JDict [(JStr ''i1'', JStr id_a), (JStr ''i2'', JStr id_b)])),
          (''POST'', ''/api/v0/labs/lab1/links'',
           Some (JDict [(JStr ''src_int'', JStr id_a), (JStr ''dst_int'', JStr id_b)]))]"
proof -
  define w1 where "w1 = snd (request_json srv_src_dst ''POST'' (links_url ''lab1'') []
      (Some (link_data_1 id_a id_b)) (world0 ()))"
  define w2 where "w2 = snd (request_json srv_src_dst ''POST'' (links_url ''lab1'') []
      (Some (link_data_2 id_a id_b)) w1)"
  have h1: "cml_auth (world0 ()) \<noteq> None" by (simp add: world0_def)
  have h2: "request_json srv_src_dst ''POST'' (links_url ''lab1'') []
      (Some (link_data_1 id_a id_b)) (world0 ()) = (Inl (HTTPStatusError 400), w1)"
    by (simp add: w1_def run_defs link_defs)
  have h3: "request_json srv_src_dst ''POST'' (links_url ''lab1'') []
      (Some (link_data_2 id_a id_b)) w1 = (Inr (JDict [(JStr ''id'', JStr ''l0'')]), w2)"
    by (simp add: w2_def w1_def run_defs link_defs)
  have n1: "\<forall>link_id result. \<not> has_link_id (Inl (HTTPStatusError 400)) link_id result"
    by (simp add: has_link_id_def)
  have f2: "has_link_id (Inr (JDict [(JStr ''id'', JStr ''l0'')])) (JStr ''l0'')
      (JDict [(JStr ''id'', JStr ''l0'')])"
    by (simp add: has_link_id_def py_truthy_def py_eq_def py_num_def)
  from create_link_v3_variants [OF h1 h2 h3] n1 f2
  have res: "fst (create_link_v3 srv_src_dst ''lab1'' id_a id_b (world0 ()))
       = link_created id_a id_b (JStr ''l0'') (JDict [(JStr ''id'', JStr ''l0'')])"
    and w: "snd (create_link_v3 srv_src_dst ''lab1'' id_a id_b (world0 ())) = w2"
    and c: "new_calls (world0 ()) w2
      = [(''POST'', links_url ''lab1'', Some (link_data_1 id_a id_b)),
         (''POST'', links_url ''lab1'', Some (link_data_2 id_a id_b))]"
    by blast+
  have "calls w2
      = [(''POST'', ''/api/v0/labs/lab1/links'',
           Some (JDict [(JStr ''i1'', JStr id_a), (JStr ''i2'', JStr id_b)])),
          (''POST'', ''/api/v0/labs/lab1/links'',
           Some (JDict [(JStr ''src_int'', JStr id_a), (JStr ''dst_int'', JStr id_b)]))]"
    using c by (simp add: new_calls_def world0_def links_url_def link_data_1_def link_data_2_def)
  then show ?thesis
    using h1 h2 res w by simp
qed

text \<open>
  C2 as the specification states it fails: with both payloads rejected, the failure
  returned names neither \<open>i1\<close>, \<open>i2\<close>, \<open>src_int\<close> nor \<open>dst_int\<close>.
\<close>

theorem exhausted_names_no_variant_counterexample:
  "fst (create_link_v3 (srv_const bad_request) ''lab1'' id_a id_b (world0 ()))
     = JDict [(JStr ''error'',
               JStr ''Failed to create link - all payload formats were tried and failed'')]
   \<and> map (snd \<circ> snd)
        (calls (snd (create_link_v3 (srv_const bad_request) ''lab1'' id_a id_b (world0 ()))))
       = [Some (JDict [(JStr ''i1'', JStr id_a), (JStr ''i2'', JStr id_b)]),
          Some (JDict [(JStr ''src_int'', JStr id_a), (JStr ''dst_int'', JStr id_b)])]
   \<and> \<not> str_contains ''i1''
         ''Failed to create link - all payload formats were tried and failed''
   \<and> \<not> str_contains ''i2''
         ''Failed to create link - all payload formats were tried and failed''
   \<and> \<not> str_contains ''src_int''
         ''Failed to create link - all payload formats were tried and failed''
   \<and> \<not> str_contains ''dst_int''
         ''Failed to create link - all payload formats were tried and failed''"
  by (simp add: run_defs link_defs)

subsection \<open>The first available physical interface\<close>








subsection \<open>Linking two nodes without an available interface\<close>











subsection \<open>Waiting for the nodes\<close>


















end
